theory Spec2Isabelle
  imports Complex_Main
begin

section \<open>The outside world: file system, processes, user interface\<close>

text \<open>
  Both scripts act on the world through \<^verbatim>\<open>pathlib\<close>, \<^verbatim>\<open>subprocess\<close> and \<^verbatim>\<open>rumps\<close>.
  A path is the list of its components below the root, as \<^verbatim>\<open>Path.parts\<close> has it, so
  \<^verbatim>\<open>Path.parent\<close> is \<open>butlast\<close>. The file system maps a path to a directory or to a file
  with its text. Permissions, symbolic links and a full disk are not part of the model.
\<close>

type_synonym path = "string list"

datatype node = Dir | File string

type_synonym filesystem = "path \<rightharpoonup> node"

text \<open>What the operating system answers when a process is started: it ran and exited
  with a status, or it could not be started at all (\<^verbatim>\<open>OSError\<close> from \<^verbatim>\<open>Popen\<close>).\<close>

datatype proc_outcome = Exited int | Spawn_failed

datatype error =
    FileNotFoundError path
  | FileExistsError path
  | NotADirectoryError path
  | IsADirectoryError path
  | OSError "string list"
  | CalledProcessError "string list" int

text \<open>Every effect on the world is recorded, in order. \<open>Popen_swift l\<close> is the swift
  process started by \<^verbatim>\<open>Popen(['swift', '-'])\<close> and fed, by \<^verbatim>\<open>communicate\<close>, the Swift program
  that passes \<open>l\<close> to \<^verbatim>\<open>CoreDisplay_Display_SetUserBrightness\<close>. \<open>Popen_failed argv\<close> is a
  \<^verbatim>\<open>Popen(argv)\<close> that raised: no process exists and nothing was handed to it.
  \<open>Run argv\<close> is \<^verbatim>\<open>subprocess.run(argv)\<close>.\<close>

datatype event =
    Popen_swift rat
  | Popen_failed "string list"
  | Run "string list"
  | Mkdir path
  | Write_text path string
  | Unlink path
  | Alert error
  | Notification string string

record world =
  fs :: filesystem
  trace :: "event list"

text \<open>A call returns normally with the new state (\<open>Inr\<close>) or raises (\<open>Inl\<close>); what it
  had already mutated before raising stays mutated, so the error carries the state.\<close>

type_synonym 's result = "(error \<times> 's) + 's"

definition final :: "'s result \<Rightarrow> 's" where
  "final r = (case r of Inl (e, s) \<Rightarrow> s | Inr s \<Rightarrow> s)"

definition raised :: "'s result \<Rightarrow> error option" where
  "raised r = (case r of Inl (e, s) \<Rightarrow> Some e | Inr s \<Rightarrow> None)"

definition str_path :: "path \<Rightarrow> string" where
  "str_path p = concat (map (\<lambda>c. ''/'' @ c) p)"

definition parent :: "path \<Rightarrow> path" where
  "parent p = butlast p"

definition exists_path :: "filesystem \<Rightarrow> path \<Rightarrow> bool" where
  "exists_path f p = (f p \<noteq> None)"

definition log_event :: "event \<Rightarrow> ('a world_scheme) \<Rightarrow> ('a world_scheme)" where
  "log_event e s = s\<lparr>trace := trace s @ [e]\<rparr>"

text \<open>\<^verbatim>\<open>Path.mkdir(exist_ok=True)\<close>, without \<^verbatim>\<open>parents=True\<close>: an existing directory is
  accepted, an existing file is not, and the parent must be there already.\<close>

definition mkdir_exist_ok :: "path \<Rightarrow> ('a world_scheme) \<Rightarrow> ('a world_scheme) result" where
  "mkdir_exist_ok p s =
     (case fs s p of
        Some Dir \<Rightarrow> Inr s
      | Some (File t) \<Rightarrow> Inl (FileExistsError p, s)
      | None \<Rightarrow>
          (case fs s (parent p) of
             Some Dir \<Rightarrow> Inr (log_event (Mkdir p) (s\<lparr>fs := (fs s)(p \<mapsto> Dir)\<rparr>))
           | Some (File t) \<Rightarrow> Inl (NotADirectoryError p, s)
           | None \<Rightarrow> Inl (FileNotFoundError p, s)))"

text \<open>\<^verbatim>\<open>Path.write_text\<close>: opens the file for writing, which creates or truncates it.\<close>

definition write_text :: "path \<Rightarrow> string \<Rightarrow> ('a world_scheme) \<Rightarrow> ('a world_scheme) result" where
  "write_text p t s =
     (case fs s (parent p) of
        None \<Rightarrow> Inl (FileNotFoundError p, s)
      | Some (File u) \<Rightarrow> Inl (NotADirectoryError p, s)
      | Some Dir \<Rightarrow>
          (case fs s p of
             Some Dir \<Rightarrow> Inl (IsADirectoryError p, s)
           | _ \<Rightarrow> Inr (log_event (Write_text p t) (s\<lparr>fs := (fs s)(p \<mapsto> File t)\<rparr>))))"

text \<open>\<^verbatim>\<open>Path.unlink\<close>.\<close>

definition unlink :: "path \<Rightarrow> ('a world_scheme) \<Rightarrow> ('a world_scheme) result" where
  "unlink p s =
     (case fs s p of
        None \<Rightarrow> Inl (FileNotFoundError p, s)
      | Some Dir \<Rightarrow> Inl (IsADirectoryError p, s)
      | Some (File t) \<Rightarrow> Inr (log_event (Unlink p) (s\<lparr>fs := (fs s)(p := None)\<rparr>)))"

text \<open>\<^verbatim>\<open>subprocess.run(argv)\<close> with \<^verbatim>\<open>check=False\<close> (the default): the exit status is
  not looked at; only a process that cannot be started raises.\<close>

definition run_unchecked :: "proc_outcome \<Rightarrow> string list \<Rightarrow> ('a world_scheme) \<Rightarrow> ('a world_scheme) result" where
  "run_unchecked r argv s =
     (case r of
        Spawn_failed \<Rightarrow> Inl (OSError argv, log_event (Run argv) s)
      | Exited n \<Rightarrow> Inr (log_event (Run argv) s))"

text \<open>\<^verbatim>\<open>Path.home() / "Library/LaunchAgents/com.xdr.brightness.plist"\<close>, in both scripts.\<close>

definition plist_path :: "path \<Rightarrow> path" where
  "plist_path home = home @ [''Library'', ''LaunchAgents'', ''com.xdr.brightness.plist'']"

definition join_lines :: "string list \<Rightarrow> string" where
  "join_lines ls = (case ls of [] \<Rightarrow> [] | l # rest \<Rightarrow> l @ concat (map (\<lambda>x. CHR 0x0A # x) rest))"


section \<open>xdr-menubar-app.py: the CoreDisplay variant\<close>

datatype icon = Sun | Bulb | Monitor | Moon | Circle

datatype enabled_title = Title_Enabled | Title_Disabled

datatype startup_title = Title_Startup | Title_Startup_Checked

text \<open>The fields of \<^verbatim>\<open>XDRBrightnessApp\<close> and the titles its callbacks write. Python floats
  are taken as exact rationals: a level is passed on unchanged, and the slider's
  \<^verbatim>\<open>(value / 100.0) * 3.2\<close> is monotone in \<^verbatim>\<open>value\<close> with or without rounding.\<close>

record app = world +
  current_brightness :: rat
  enabled :: bool
  icon :: "icon option"
  enabled_item :: enabled_title
  startup_item :: startup_title

definition is_startup_enabled :: "path \<Rightarrow> app \<Rightarrow> bool" where
  "is_startup_enabled home s = exists_path (fs s) (plist_path home)"

definition update_menu_state :: "path \<Rightarrow> app \<Rightarrow> app" where
  "update_menu_state home s =
     (if is_startup_enabled home s then s\<lparr>startup_item := Title_Startup_Checked\<rparr> else s)"

definition init_app :: "path \<Rightarrow> filesystem \<Rightarrow> app" where
  "init_app home f =
     update_menu_state home
       \<lparr>fs = f, trace = [], current_brightness = 1, enabled = True, icon = None,
        enabled_item = Title_Enabled, startup_item = Title_Startup\<rparr>"

definition set_brightness :: "proc_outcome \<Rightarrow> rat \<Rightarrow> app \<Rightarrow> app result" where
  "set_brightness r level s =
     (if \<not> enabled s then Inr s
      else
        (case r of
           Spawn_failed \<Rightarrow>
             Inl (OSError [''swift'', ''-''], log_event (Popen_failed [''swift'', ''-'']) s)
         | Exited n \<Rightarrow> Inr ((log_event (Popen_swift level) s)\<lparr>current_brightness := level\<rparr>)))"

definition update_icon :: "icon \<Rightarrow> app \<Rightarrow> app" where
  "update_icon i s = s\<lparr>icon := Some i\<rparr>"

definition show_notification :: "string \<Rightarrow> string \<Rightarrow> app \<Rightarrow> app" where
  "show_notification title message s = log_event (Notification title message) s"

text \<open>The four preset callbacks. Each ends with a \<^verbatim>\<open>set_value\<close> on the slider widget of
  the menu, a call into \<^verbatim>\<open>rumps\<close> that touches no field of the application; the model
  stops before it.\<close>

definition set_outdoor :: "proc_outcome \<Rightarrow> app \<Rightarrow> app result" where
  "set_outdoor r s =
     (case set_brightness r (32 / 10) s of
        Inl e \<Rightarrow> Inl e
      | Inr s1 \<Rightarrow>
          Inr (update_icon Sun
                (show_notification ''Outdoor Mode'' ''1600 nits - Maximum brightness'' s1)))"

definition set_bright :: "proc_outcome \<Rightarrow> app \<Rightarrow> app result" where
  "set_bright r s =
     (case set_brightness r 2 s of
        Inl e \<Rightarrow> Inl e
      | Inr s1 \<Rightarrow> Inr (update_icon Bulb (show_notification ''Bright Mode'' ''1000 nits'' s1)))"

definition set_normal :: "proc_outcome \<Rightarrow> app \<Rightarrow> app result" where
  "set_normal r s =
     (case set_brightness r 1 s of
        Inl e \<Rightarrow> Inl e
      | Inr s1 \<Rightarrow> Inr (update_icon Monitor (show_notification ''Normal Mode'' ''500 nits'' s1)))"

definition set_dim :: "proc_outcome \<Rightarrow> app \<Rightarrow> app result" where
  "set_dim r s =
     (case set_brightness r (5 / 10) s of
        Inl e \<Rightarrow> Inl e
      | Inr s1 \<Rightarrow> Inr (update_icon Moon (show_notification ''Dim Mode'' ''250 nits'' s1)))"

definition slider_icon :: "rat \<Rightarrow> icon" where
  "slider_icon brightness =
     (if brightness \<ge> 25 / 10 then Sun
      else if brightness \<ge> 15 / 10 then Bulb
      else if brightness \<ge> 8 / 10 then Monitor
      else Moon)"

definition slider_changed :: "proc_outcome \<Rightarrow> rat \<Rightarrow> app \<Rightarrow> app result" where
  "slider_changed r sender_value s =
     (if \<not> enabled s then Inr s
      else
        (let brightness = (sender_value / 100) * (32 / 10) in
         case set_brightness r brightness s of
           Inl e \<Rightarrow> Inl e
         | Inr s1 \<Rightarrow> Inr (update_icon (slider_icon brightness) s1)))"

definition toggle_enabled :: "proc_outcome \<Rightarrow> app \<Rightarrow> app result" where
  "toggle_enabled r s =
     (let s1 = s\<lparr>enabled := \<not> enabled s\<rparr>;
          s2 = s1\<lparr>enabled_item := (if enabled s1 then Title_Enabled else Title_Disabled)\<rparr>
      in
        if \<not> enabled s2 then
          (case set_brightness r 1 s2 of
             Inl e \<Rightarrow> Inl e
           | Inr s3 \<Rightarrow> Inr (update_icon Circle s3))
        else Inr (update_icon Sun s2))"

text \<open>The levels handed to the display call, in order.\<close>

fun swift_levels :: "event list \<Rightarrow> rat list" where
  "swift_levels [] = []"
| "swift_levels (Popen_swift l # es) = l # swift_levels es"
| "swift_levels (e # es) = swift_levels es"

text \<open>The process invocations of a trace, in order.\<close>

fun external_calls :: "event list \<Rightarrow> event list" where
  "external_calls [] = []"
| "external_calls (Popen_swift l # es) = Popen_swift l # external_calls es"
| "external_calls (Run argv # es) = Run argv # external_calls es"
| "external_calls (e # es) = external_calls es"

definition and_then :: "'s result \<Rightarrow> ('s \<Rightarrow> 's result) \<Rightarrow> 's result" where
  "and_then r k = (case r of Inl e \<Rightarrow> Inl e | Inr s \<Rightarrow> k s)"

text \<open>The property list \<^verbatim>\<open>enable_startup\<close> writes, with \<^verbatim>\<open>sys.executable\<close> and the
  absolute path of the script filled in.\<close>

definition plist_content :: "string \<Rightarrow> string \<Rightarrow> string" where
  \<open>plist_content executable script = join_lines
     [''<?xml version="1.0" encoding="UTF-8"?>'',
      ''<!DOCTYPE plist PUBLIC "-//Apple//DTD PLIST 1.0//EN" "http://www.apple.com/DTDs/PropertyList-1.0.dtd">'',
      ''<plist version="1.0">'',
      ''<dict>'',
      ''    <key>Label</key>'',
      ''    <string>com.xdr.brightness</string>'',
      ''    <key>ProgramArguments</key>'',
      ''    <array>'',
      ''        <string>'' @ executable @ ''</string>'',
      ''        <string>'' @ script @ ''</string>'',
      ''    </array>'',
      ''    <key>RunAtLoad</key>'',
      ''    <true/>'',
      ''    <key>KeepAlive</key>'',
      ''    <false/>'',
      ''</dict>'',
      ''</plist>'']\<close>

definition enable_startup :: "proc_outcome \<Rightarrow> string \<Rightarrow> string \<Rightarrow> path \<Rightarrow> app \<Rightarrow> app result" where
  "enable_startup r executable script home s =
     and_then (mkdir_exist_ok (parent (plist_path home)) s) (\<lambda>s1.
     and_then (write_text (plist_path home) (plist_content executable script) s1) (\<lambda>s2.
     run_unchecked r [''launchctl'', ''load'', str_path (plist_path home)] s2))"

definition disable_startup :: "proc_outcome \<Rightarrow> path \<Rightarrow> app \<Rightarrow> app result" where
  "disable_startup r home s =
     (if exists_path (fs s) (plist_path home) then
        and_then (run_unchecked r [''launchctl'', ''unload'', str_path (plist_path home)] s)
          (unlink (plist_path home))
      else Inr s)"

definition toggle_startup :: "proc_outcome \<Rightarrow> string \<Rightarrow> string \<Rightarrow> path \<Rightarrow> app \<Rightarrow> app result" where
  "toggle_startup r executable script home s =
     (if is_startup_enabled home s then
        and_then (disable_startup r home s) (\<lambda>s1.
          Inr (show_notification ''Startup Disabled'' ''XDR Brightness won't launch at startup''
                (s1\<lparr>startup_item := Title_Startup\<rparr>)))
      else
        and_then (enable_startup r executable script home s) (\<lambda>s1.
          Inr (show_notification ''Startup Enabled'' ''XDR Brightness will launch at startup''
                (s1\<lparr>startup_item := Title_Startup_Checked\<rparr>))))"


section \<open>XDR\_Brightness.py: the ddcctl variant\<close>

definition DDCCTL_PATH :: string where
  "DDCCTL_PATH = ''/usr/local/bin/ddcctl''"

definition BRIGHTNESS_XDR :: string where
  "BRIGHTNESS_XDR = ''100''"

definition BRIGHTNESS_NORMAL :: string where
  "BRIGHTNESS_NORMAL = ''50''"

text \<open>The runtime state of this script's \<^verbatim>\<open>XDRBrightnessApp\<close>: its \<^verbatim>\<open>enabled\<close> flag and the
  check marks of the two menu items.\<close>

record ddc_app = world +
  xdr_enabled :: bool
  enable_item_state :: bool
  startup_item_state :: bool

text \<open>\<^verbatim>\<open>_run_ddcctl\<close>, with its command line \<^verbatim>\<open>cmd\<close> as a function of the flag:
  \<^verbatim>\<open>subprocess.run(cmd, check=True)\<close> raises \<^verbatim>\<open>CalledProcessError\<close> on
  a non-zero exit status, which is caught and shown in an alert; a process that cannot be
  started raises an \<^verbatim>\<open>OSError\<close>, which is not caught.\<close>

definition ddcctl_cmd :: "bool \<Rightarrow> string list" where
  "ddcctl_cmd enable =
     (let brightness = (if enable then BRIGHTNESS_XDR else BRIGHTNESS_NORMAL)
      in [''sudo'', DDCCTL_PATH, ''-d'', ''1'', ''-b'', brightness])"

definition run_ddcctl :: "proc_outcome \<Rightarrow> bool \<Rightarrow> ddc_app \<Rightarrow> ddc_app result" where
  "run_ddcctl r enable s =
     (let cmd = ddcctl_cmd enable
      in
        case r of
          Spawn_failed \<Rightarrow> Inl (OSError cmd, log_event (Run cmd) s)
        | Exited n \<Rightarrow>
            (if n = 0 then Inr (log_event (Run cmd) s)
             else Inr (log_event (Alert (CalledProcessError cmd n)) (log_event (Run cmd) s))))"

definition launch_agent_installed :: "path \<Rightarrow> ddc_app \<Rightarrow> bool" where
  "launch_agent_installed home s = exists_path (fs s) (plist_path home)"

definition update_menu_state_ddc :: "path \<Rightarrow> ddc_app \<Rightarrow> ddc_app" where
  "update_menu_state_ddc home s =
     s\<lparr>enable_item_state := xdr_enabled s,
       startup_item_state := launch_agent_installed home s\<rparr>"

definition init_ddc_app :: "path \<Rightarrow> filesystem \<Rightarrow> ddc_app" where
  "init_ddc_app home f =
     update_menu_state_ddc home
       \<lparr>fs = f, trace = [], xdr_enabled = False, enable_item_state = False,
        startup_item_state = False\<rparr>"

definition toggle_xdr :: "proc_outcome \<Rightarrow> path \<Rightarrow> ddc_app \<Rightarrow> ddc_app result" where
  "toggle_xdr r home s =
     (let s1 = s\<lparr>xdr_enabled := \<not> xdr_enabled s\<rparr> in
      and_then (run_ddcctl r (xdr_enabled s1) s1) (\<lambda>s2. Inr (update_menu_state_ddc home s2)))"

text \<open>The property list \<^verbatim>\<open>_install_launch_agent\<close> writes; \<open>script\<close> is
  \<^verbatim>\<open>Path(__file__).as_posix()\<close>.\<close>

definition plist_ddc :: "string \<Rightarrow> string" where
  \<open>plist_ddc script = join_lines
     [''<?xml version="1.0" encoding="UTF-8"?>'',
      ''<!DOCTYPE plist PUBLIC "-//Apple//DTD PLIST 1.0//EN" "http://www.apple.com/DTDs/PropertyList-1.0.dtd">'',
      ''<plist version="1.0">'',
      ''<dict>'',
      ''    <key>Label</key><string>com.xdr.brightness</string>'',
      ''    <key>ProgramArguments</key>'',
      ''    <array>'',
      ''        <string>/usr/bin/python3</string>'',
      ''        <string>'' @ script @ ''</string>'',
      ''    </array>'',
      ''    <key>RunAtLoad</key><true/>'',
      ''</dict>'',
      ''</plist>'']\<close>

definition install_launch_agent :: "proc_outcome \<Rightarrow> string \<Rightarrow> path \<Rightarrow> ddc_app \<Rightarrow> ddc_app result" where
  "install_launch_agent r script home s =
     and_then (write_text (plist_path home) (plist_ddc script) s) (\<lambda>s1.
     run_unchecked r [''launchctl'', ''load'', str_path (plist_path home)] s1)"

definition remove_launch_agent :: "proc_outcome \<Rightarrow> path \<Rightarrow> ddc_app \<Rightarrow> ddc_app result" where
  "remove_launch_agent r home s =
     (if exists_path (fs s) (plist_path home) then
        and_then (run_unchecked r [''launchctl'', ''unload'', str_path (plist_path home)] s)
          (unlink (plist_path home))
      else Inr s)"

definition toggle_startup_ddc :: "proc_outcome \<Rightarrow> string \<Rightarrow> path \<Rightarrow> ddc_app \<Rightarrow> ddc_app result" where
  "toggle_startup_ddc r script home s =
     and_then
       (if launch_agent_installed home s then remove_launch_agent r home s
        else install_launch_agent r script home s)
       (\<lambda>s1. Inr (update_menu_state_ddc home s1))"


section \<open>Example file systems\<close>

text \<open>A home directory \<^verbatim>\<open>/Users/u\<close> with its \<^verbatim>\<open>Library\<close> and no \<^verbatim>\<open>LaunchAgents\<close> directory in
  it, and the same home directory with \<^verbatim>\<open>Library/LaunchAgents\<close>.\<close>

definition fresh_home :: filesystem where
  "fresh_home = [[''Users'', ''u''] \<mapsto> Dir, [''Users'', ''u'', ''Library''] \<mapsto> Dir]"

definition home_with_agents :: filesystem where
  "home_with_agents = fresh_home([''Users'', ''u'', ''Library'', ''LaunchAgents''] \<mapsto> Dir)"


section \<open>Properties of the brightness controller\<close>

lemma swift_levels_append: "swift_levels (xs @ ys) = swift_levels xs @ swift_levels ys"
  by (induction xs rule: swift_levels.induct) simp_all

lemma external_calls_append: "external_calls (xs @ ys) = external_calls xs @ external_calls ys"
  by (induction xs rule: external_calls.induct) simp_all

lemma set_brightness_trace:
  "trace (final (set_brightness r l s)) =
     trace s @ (if enabled s
                then [case r of Spawn_failed \<Rightarrow> Popen_failed [''swift'', ''-'']
                             | Exited n \<Rightarrow> Popen_swift l]
                else [])"
  by (simp add: set_brightness_def final_def log_event_def split: proc_outcome.splits)

lemma toggle_enabled_off:
  "enabled s \<Longrightarrow> toggle_enabled r s =
     Inr (s\<lparr>enabled := False, enabled_item := Title_Disabled, icon := Some Circle\<rparr>)"
  by (simp add: toggle_enabled_def set_brightness_def update_icon_def Let_def)

text \<open>
  Claim C1. The claim: on every transition from enabled to disabled, \<^verbatim>\<open>toggle_enabled\<close>
  applies the safe default level 1.0 through \<^verbatim>\<open>set_brightness\<close> before the flag is cleared,
  so the display call with 1.0 is issued. The code clears the flag first, and
  \<^verbatim>\<open>set_brightness(1.0)\<close> then returns at its \<^verbatim>\<open>if not self.enabled\<close> guard. Evaluated after
  the Outdoor preset: the only level ever handed to the display is 3.2, the recorded
  brightness stays 3.2, and the application is disabled.
\<close>

theorem toggle_enabled_issues_no_reset:
  "swift_levels (trace (final (toggle_enabled (Exited 0)
      (final (set_outdoor (Exited 0) (init_app [''Users'', ''u''] Map.empty)))))) = [32 / 10]
   \<and> current_brightness (final (toggle_enabled (Exited 0)
      (final (set_outdoor (Exited 0) (init_app [''Users'', ''u''] Map.empty))))) = 32 / 10
   \<and> \<not> enabled (final (toggle_enabled (Exited 0)
      (final (set_outdoor (Exited 0) (init_app [''Users'', ''u''] Map.empty)))))"
  by (simp add: toggle_enabled_def set_outdoor_def set_brightness_def init_app_def
      update_menu_state_def is_startup_enabled_def exists_path_def final_def log_event_def
      update_icon_def show_notification_def Let_def)

text \<open>
  Claim C4. For every level, \<^verbatim>\<open>set_brightness\<close> on a disabled application returns normally
  and changes nothing: the state is the same, so the recorded brightness is unchanged and
  no display call is issued.
\<close>

theorem set_brightness_disabled_noop:
  "\<not> enabled s \<Longrightarrow>
     set_brightness r level s = Inr s
     \<and> current_brightness (final (set_brightness r level s)) = current_brightness s
     \<and> trace (final (set_brightness r level s)) = trace s"
  by (simp add: set_brightness_def final_def)

theorem set_brightness_disabled_noop_witness:
  "\<not> enabled ((init_app [''Users'', ''u''] Map.empty)\<lparr>enabled := False\<rparr>)
   \<and> set_brightness (Exited 0) (32 / 10) ((init_app [''Users'', ''u''] Map.empty)\<lparr>enabled := False\<rparr>)
       = Inr ((init_app [''Users'', ''u''] Map.empty)\<lparr>enabled := False\<rparr>)"
  using set_brightness_disabled_noop
    [of "(init_app [''Users'', ''u''] Map.empty)\<lparr>enabled := False\<rparr>" "Exited 0" "32 / 10"]
  by simp

lemma preset_levels:
  "swift_levels (trace (final (case set_brightness r l s of Inl e \<Rightarrow> Inl e
      | Inr s1 \<Rightarrow> Inr (update_icon i (show_notification t m s1)))))
   = swift_levels (trace s) @ (if enabled s \<and> r \<noteq> Spawn_failed then [l] else [])"
  by (simp add: set_brightness_def final_def log_event_def update_icon_def show_notification_def
      swift_levels_append split: proc_outcome.splits)

text \<open>
  Claim C2. The claim: every level that reaches the display call has been clamped to
  [0,1]. The code has no clamp: the Outdoor preset hands 3.2 to the display call.
\<close>

theorem set_outdoor_level_counterexample:
  "swift_levels (trace (final (set_outdoor (Exited 0) (init_app [''Users'', ''u''] Map.empty))))
     = [32 / 10]
   \<and> \<not> ((32 / 10 :: rat) \<le> 1)"
  by (simp add: set_outdoor_def set_brightness_def init_app_def
      update_menu_state_def is_startup_enabled_def exists_path_def final_def log_event_def
      update_icon_def show_notification_def)

text \<open>
  Claim C2, amended. \<^verbatim>\<open>set_brightness\<close> hands the requested level to the display call
  unchanged, with no clamping, and hands over nothing when the application is disabled or
  the swift process cannot be started. The presets pass 3.2,
  2.0, 1.0 and 0.5, and a slider value in [0,100] is passed as value / 100 * 3.2, so every
  level that the presets and the slider pass lies in [0, 3.2], the scale of this script
  (1.0 is 500 nits, 3.2 is 1600 nits).
\<close>

theorem external_level_within_scale:
  assumes "0 \<le> v" and "v \<le> 100"
  shows "swift_levels (trace (final (set_brightness r l s)))
           = swift_levels (trace s) @ (if enabled s \<and> r \<noteq> Spawn_failed then [l] else [])
       \<and> swift_levels (trace (final (set_outdoor r s)))
           = swift_levels (trace s) @ (if enabled s \<and> r \<noteq> Spawn_failed then [32 / 10] else [])
       \<and> swift_levels (trace (final (set_bright r s)))
           = swift_levels (trace s) @ (if enabled s \<and> r \<noteq> Spawn_failed then [2] else [])
       \<and> swift_levels (trace (final (set_normal r s)))
           = swift_levels (trace s) @ (if enabled s \<and> r \<noteq> Spawn_failed then [1] else [])
       \<and> swift_levels (trace (final (set_dim r s)))
           = swift_levels (trace s) @ (if enabled s \<and> r \<noteq> Spawn_failed then [5 / 10] else [])
       \<and> swift_levels (trace (final (slider_changed r v s)))
           = swift_levels (trace s) @ (if enabled s \<and> r \<noteq> Spawn_failed then [(v / 100) * (32 / 10)] else [])
       \<and> 0 \<le> (v / 100) * (32 / 10) \<and> (v / 100) * (32 / 10) \<le> 32 / 10"
proof -
  have a: "swift_levels (trace (final (set_brightness r l s)))
           = swift_levels (trace s) @ (if enabled s \<and> r \<noteq> Spawn_failed then [l] else [])"
    by (simp add: set_brightness_trace swift_levels_append split: proc_outcome.splits)
  have b: "swift_levels (trace (final (slider_changed r v s)))
           = swift_levels (trace s) @ (if enabled s \<and> r \<noteq> Spawn_failed then [(v / 100) * (32 / 10)] else [])"
    by (simp add: slider_changed_def set_brightness_def final_def log_event_def update_icon_def
        swift_levels_append Let_def split: proc_outcome.splits)
  have c: "0 \<le> (v / 100) * (32 / 10)" "(v / 100) * (32 / 10) \<le> 32 / 10"
    using assms by simp_all
  show ?thesis
    using a b c unfolding set_outdoor_def set_bright_def set_normal_def set_dim_def preset_levels
    by simp
qed

theorem external_level_within_scale_witness:
  "(0::rat) \<le> 50 \<and> (50::rat) \<le> 100
   \<and> swift_levels (trace (final (slider_changed (Exited 0) 50 (init_app [''Users'', ''u''] Map.empty))))
       = [16 / 10]
   \<and> swift_levels (trace (final (set_dim (Exited 0) (init_app [''Users'', ''u''] Map.empty))))
       = [5 / 10]"
  using external_level_within_scale [of 50 "Exited 0" 0 "init_app [''Users'', ''u''] Map.empty"]
  by (simp add: init_app_def update_menu_state_def is_startup_enabled_def exists_path_def)

text \<open>
  Claim C3. The claim: \<^verbatim>\<open>set_brightness(0.32)\<close> makes the external call receive the
  scaled value 32. The code embeds the level itself in the Swift program: the one call
  issued carries 0.32.
\<close>

theorem set_brightness_unscaled_counterexample:
  "external_calls (trace (final (set_brightness (Exited 0) (32 / 100)
       (init_app [''Users'', ''u''] Map.empty)))) = [Popen_swift (32 / 100)]
   \<and> Popen_swift (32 / 100) \<noteq> Popen_swift 32"
  by (simp add: set_brightness_def init_app_def
      update_menu_state_def is_startup_enabled_def exists_path_def final_def log_event_def)

text \<open>
  Claim C3, amended. For every level L, \<^verbatim>\<open>set_brightness(L)\<close> on an enabled application
  whose swift process can be started issues exactly one external call, and that call
  carries L itself, unscaled; the call returns normally and the recorded brightness is L.
  When the swift process cannot be started, no call is issued, the \<^verbatim>\<open>OSError\<close> propagates
  and the recorded brightness stays as it was.
\<close>

theorem set_brightness_enabled:
  assumes "enabled s"
  shows "(r \<noteq> Spawn_failed \<longrightarrow>
             external_calls (trace (final (set_brightness r L s)))
               = external_calls (trace s) @ [Popen_swift L]
           \<and> raised (set_brightness r L s) = None
           \<and> current_brightness (final (set_brightness r L s)) = L)
       \<and> external_calls (trace (final (set_brightness Spawn_failed L s)))
             = external_calls (trace s)
       \<and> raised (set_brightness Spawn_failed L s) = Some (OSError [''swift'', ''-''])
       \<and> current_brightness (final (set_brightness Spawn_failed L s)) = current_brightness s"
  using assms
  by (simp add: set_brightness_def final_def raised_def log_event_def external_calls_append
      split: proc_outcome.splits)

theorem set_brightness_enabled_witness:
  "enabled (init_app [''Users'', ''u''] Map.empty)
   \<and> Exited 0 \<noteq> Spawn_failed
   \<and> external_calls (trace (final (set_brightness (Exited 0) (32 / 100)
         (init_app [''Users'', ''u''] Map.empty)))) = [Popen_swift (32 / 100)]
   \<and> current_brightness (final (set_brightness (Exited 0) (32 / 100)
         (init_app [''Users'', ''u''] Map.empty))) = 32 / 100"
  using set_brightness_enabled [of "init_app [''Users'', ''u''] Map.empty" "Exited 0" "32 / 100"]
  by (simp add: init_app_def update_menu_state_def is_startup_enabled_def exists_path_def)


section \<open>Failures of the external tool\<close>

lemma run_ddcctl_cases:
  "run_ddcctl Spawn_failed en d = Inl (OSError (ddcctl_cmd en), log_event (Run (ddcctl_cmd en)) d)"
  "run_ddcctl (Exited 0) en d = Inr (log_event (Run (ddcctl_cmd en)) d)"
  "n \<noteq> 0 \<Longrightarrow> run_ddcctl (Exited n) en d =
     Inr (log_event (Alert (CalledProcessError (ddcctl_cmd en) n)) (log_event (Run (ddcctl_cmd en)) d))"
  by (simp_all add: run_ddcctl_def Let_def)




text \<open>
  Claim C10. \<^verbatim>\<open>toggle_xdr\<close> flips the flag before it calls the tool, with the command line of
  the new state, and never flips it back: whatever the tool does, the flag afterwards is
  the negation of the flag before. In particular after a non-zero exit status (an alert is
  shown, the call returns) and after a tool that could not be started (the \<^verbatim>\<open>OSError\<close>
  propagates) the flag holds the requested state.
\<close>

theorem toggle_xdr_keeps_new_state:
  "xdr_enabled (final (toggle_xdr r home s)) = (\<not> xdr_enabled s)
   \<and> raised (toggle_xdr Spawn_failed home s) = Some (OSError (ddcctl_cmd (\<not> xdr_enabled s)))
   \<and> (n \<noteq> 0 \<longrightarrow>
        raised (toggle_xdr (Exited n) home s) = None
      \<and> xdr_enabled (final (toggle_xdr (Exited n) home s)) = (\<not> xdr_enabled s)
      \<and> enable_item_state (final (toggle_xdr (Exited n) home s)) = (\<not> xdr_enabled s)
      \<and> trace (final (toggle_xdr (Exited n) home s))
          = trace s @ [Run (ddcctl_cmd (\<not> xdr_enabled s)),
                       Alert (CalledProcessError (ddcctl_cmd (\<not> xdr_enabled s)) n)])"
proof -
  have a: "xdr_enabled (final (toggle_xdr r home s)) = (\<not> xdr_enabled s)"
    by (cases r; cases "r = Exited 0")
       (simp_all add: toggle_xdr_def run_ddcctl_def and_then_def final_def log_event_def
          update_menu_state_ddc_def Let_def)
  have b: "raised (toggle_xdr Spawn_failed home s) = Some (OSError (ddcctl_cmd (\<not> xdr_enabled s)))"
    by (simp add: toggle_xdr_def run_ddcctl_cases and_then_def raised_def Let_def)
  have c: "n \<noteq> 0 \<Longrightarrow>
        raised (toggle_xdr (Exited n) home s) = None
      \<and> xdr_enabled (final (toggle_xdr (Exited n) home s)) = (\<not> xdr_enabled s)
      \<and> enable_item_state (final (toggle_xdr (Exited n) home s)) = (\<not> xdr_enabled s)
      \<and> trace (final (toggle_xdr (Exited n) home s))
          = trace s @ [Run (ddcctl_cmd (\<not> xdr_enabled s)),
                       Alert (CalledProcessError (ddcctl_cmd (\<not> xdr_enabled s)) n)]"
    by (simp add: toggle_xdr_def run_ddcctl_cases and_then_def raised_def final_def log_event_def
        update_menu_state_ddc_def Let_def)
  show ?thesis using a b c by blast
qed

theorem toggle_xdr_keeps_new_state_witness:
  "(1::int) \<noteq> 0
   \<and> \<not> xdr_enabled (init_ddc_app [''Users'', ''u''] Map.empty)
   \<and> xdr_enabled (final (toggle_xdr (Exited 1) [''Users'', ''u'']
        (init_ddc_app [''Users'', ''u''] Map.empty)))
   \<and> trace (final (toggle_xdr (Exited 1) [''Users'', ''u'']
        (init_ddc_app [''Users'', ''u''] Map.empty)))
        = [Run [''sudo'', ''/usr/local/bin/ddcctl'', ''-d'', ''1'', ''-b'', ''100''],
           Alert (CalledProcessError
                    [''sudo'', ''/usr/local/bin/ddcctl'', ''-d'', ''1'', ''-b'', ''100''] 1)]"
  using toggle_xdr_keeps_new_state
    [of "Exited 1" "[''Users'', ''u'']" "init_ddc_app [''Users'', ''u''] Map.empty" 1]
  by (simp add: init_ddc_app_def update_menu_state_ddc_def ddcctl_cmd_def DDCCTL_PATH_def
      BRIGHTNESS_XDR_def)


section \<open>Properties of the login agent\<close>

lemma parent_plist_path [simp]: "parent (plist_path home) = home @ [''Library'', ''LaunchAgents'']"
  by (simp add: parent_def plist_path_def butlast_append)

lemma parent_neq_plist [simp]: "home @ [''Library'', ''LaunchAgents''] \<noteq> plist_path home"
  by (simp add: plist_path_def)

lemma write_text_ok:
  "fs s (parent p) = Some Dir \<Longrightarrow> fs s p \<noteq> Some Dir \<Longrightarrow>
     write_text p t s = Inr (log_event (Write_text p t) (s\<lparr>fs := (fs s)(p \<mapsto> File t)\<rparr>))"
  by (auto simp add: write_text_def split: option.splits node.splits)

lemma write_text_Inr:
  "write_text p t s = Inr s' \<Longrightarrow> fs s' = (fs s)(p \<mapsto> File t) \<and> trace s' = trace s @ [Write_text p t]"
  by (auto simp add: write_text_def log_event_def split: option.splits node.splits)

lemma run_unchecked_Inr:
  "run_unchecked r argv s = Inr s' \<Longrightarrow> s' = log_event (Run argv) s"
  by (simp add: run_unchecked_def split: proc_outcome.splits)

lemma and_then_Inr: "and_then r k = Inr s' \<longleftrightarrow> (\<exists>s1. r = Inr s1 \<and> k s1 = Inr s')"
  by (cases r) (simp_all add: and_then_def)

lemma raised_None: "raised r = None \<longleftrightarrow> (\<exists>s. r = Inr s)"
  by (cases r) (auto simp add: raised_def)

lemma final_Inr [simp]: "final (Inr s) = s"
  by (simp add: final_def)

lemma enable_startup_Inr:
  assumes "enable_startup r e sc home s = Inr s'"
  shows "fs s' (plist_path home) = Some (File (plist_content e sc))"
proof -
  from assms obtain s1 s2 where
    m: "mkdir_exist_ok (parent (plist_path home)) s = Inr s1" and
    w: "write_text (plist_path home) (plist_content e sc) s1 = Inr s2" and
    l: "run_unchecked r [''launchctl'', ''load'', str_path (plist_path home)] s2 = Inr s'"
    by (auto simp add: enable_startup_def and_then_Inr)
  from w have "fs s2 (plist_path home) = Some (File (plist_content e sc))"
    by (simp add: write_text_Inr)
  moreover from l have "fs s' = fs s2"
    by (auto dest: run_unchecked_Inr simp add: log_event_def)
  ultimately show ?thesis by simp
qed

lemma install_launch_agent_Inr:
  assumes "install_launch_agent r sc home s = Inr s'"
  shows "fs s' (plist_path home) = Some (File (plist_ddc sc))"
proof -
  from assms obtain s1 where
    w: "write_text (plist_path home) (plist_ddc sc) s = Inr s1" and
    l: "run_unchecked r [''launchctl'', ''load'', str_path (plist_path home)] s1 = Inr s'"
    by (auto simp add: install_launch_agent_def and_then_Inr)
  from w have "fs s1 (plist_path home) = Some (File (plist_ddc sc))"
    by (simp add: write_text_Inr)
  moreover from l have "fs s' = fs s1"
    by (auto dest: run_unchecked_Inr simp add: log_event_def)
  ultimately show ?thesis by simp
qed

text \<open>
  Claim C6. Whether the login agent is installed is read from the file system at the
  moment of the call and from nothing else: two states with the same file system give the
  same answer, whatever their fields and history. After a successful install the answer is
  true, and once the record is deleted behind the application's back the answer is false,
  a plain value and not an error.
\<close>

theorem is_installed_reflects_disk:
  "(fs a = fs b \<longrightarrow> is_startup_enabled home a = is_startup_enabled home b)
   \<and> (fs c = fs d \<longrightarrow> launch_agent_installed home c = launch_agent_installed home d)
   \<and> (raised (enable_startup r e sc home s) = None \<longrightarrow>
        is_startup_enabled home (final (enable_startup r e sc home s))
      \<and> \<not> is_startup_enabled home
            ((final (enable_startup r e sc home s))
               \<lparr>fs := (fs (final (enable_startup r e sc home s)))(plist_path home := None)\<rparr>))
   \<and> (raised (install_launch_agent r sc home t) = None \<longrightarrow>
        launch_agent_installed home (final (install_launch_agent r sc home t))
      \<and> \<not> launch_agent_installed home
            ((final (install_launch_agent r sc home t))
               \<lparr>fs := (fs (final (install_launch_agent r sc home t)))(plist_path home := None)\<rparr>))"
proof -
  have u1: "fs a = fs b \<longrightarrow> is_startup_enabled home a = is_startup_enabled home b"
    by (simp add: is_startup_enabled_def)
  have u2: "fs c = fs d \<longrightarrow> launch_agent_installed home c = launch_agent_installed home d"
    by (simp add: launch_agent_installed_def)
  have m: "raised (enable_startup r e sc home s) = None \<longrightarrow>
        is_startup_enabled home (final (enable_startup r e sc home s))
      \<and> \<not> is_startup_enabled home
            ((final (enable_startup r e sc home s))
               \<lparr>fs := (fs (final (enable_startup r e sc home s)))(plist_path home := None)\<rparr>)"
  proof
    assume "raised (enable_startup r e sc home s) = None"
    then obtain s' where s': "enable_startup r e sc home s = Inr s'"
      by (auto simp add: raised_None)
    from enable_startup_Inr [OF s'] show
      "is_startup_enabled home (final (enable_startup r e sc home s))
      \<and> \<not> is_startup_enabled home
            ((final (enable_startup r e sc home s))
               \<lparr>fs := (fs (final (enable_startup r e sc home s)))(plist_path home := None)\<rparr>)"
      by (simp add: s' is_startup_enabled_def exists_path_def)
  qed
  have n: "raised (install_launch_agent r sc home t) = None \<longrightarrow>
        launch_agent_installed home (final (install_launch_agent r sc home t))
      \<and> \<not> launch_agent_installed home
            ((final (install_launch_agent r sc home t))
               \<lparr>fs := (fs (final (install_launch_agent r sc home t)))(plist_path home := None)\<rparr>)"
  proof
    assume "raised (install_launch_agent r sc home t) = None"
    then obtain s' where s': "install_launch_agent r sc home t = Inr s'"
      by (auto simp add: raised_None)
    from install_launch_agent_Inr [OF s'] show
      "launch_agent_installed home (final (install_launch_agent r sc home t))
      \<and> \<not> launch_agent_installed home
            ((final (install_launch_agent r sc home t))
               \<lparr>fs := (fs (final (install_launch_agent r sc home t)))(plist_path home := None)\<rparr>)"
      by (simp add: s' launch_agent_installed_def exists_path_def)
  qed
  from u1 u2 m n show ?thesis by blast
qed


lemmas eval_defs =
  enable_startup_def install_launch_agent_def disable_startup_def remove_launch_agent_def
  and_then_def mkdir_exist_ok_def write_text_def unlink_def run_unchecked_def
  init_app_def update_menu_state_def is_startup_enabled_def
  init_ddc_app_def update_menu_state_ddc_def launch_agent_installed_def
  exists_path_def fresh_home_def home_with_agents_def raised_def final_def
  log_event_def plist_path_def parent_def

theorem is_installed_reflects_disk_witness:
  "raised (enable_startup (Exited 0) ''/usr/bin/python3'' ''/Users/u/xdr-menubar-app.py''
      [''Users'', ''u''] (init_app [''Users'', ''u''] fresh_home)) = None
   \<and> raised (install_launch_agent (Exited 0) ''/Users/u/xdr-menubar-app.py''
      [''Users'', ''u''] (init_ddc_app [''Users'', ''u''] home_with_agents)) = None
   \<and> is_startup_enabled [''Users'', ''u'']
        (final (enable_startup (Exited 0) ''/usr/bin/python3'' ''/Users/u/xdr-menubar-app.py''
           [''Users'', ''u''] (init_app [''Users'', ''u''] fresh_home)))
   \<and> launch_agent_installed [''Users'', ''u'']
        (final (install_launch_agent (Exited 0) ''/Users/u/xdr-menubar-app.py''
           [''Users'', ''u''] (init_ddc_app [''Users'', ''u''] home_with_agents)))"
  using is_installed_reflects_disk
    [where home = "[''Users'', ''u'']" and r = "Exited 0" and e = "''/usr/bin/python3''"
       and sc = "''/Users/u/xdr-menubar-app.py''" and s = "init_app [''Users'', ''u''] fresh_home"
       and t = "init_ddc_app [''Users'', ''u''] home_with_agents"
       and a = "init_app [''Users'', ''u''] fresh_home"
       and b = "init_app [''Users'', ''u''] fresh_home"
       and c = "init_ddc_app [''Users'', ''u''] home_with_agents"
       and d = "init_ddc_app [''Users'', ''u''] home_with_agents"]
  by (simp add: eval_defs)

lemma remove_body_Inr:
  "and_then (run_unchecked r argv s) (unlink p) = Inr s' \<Longrightarrow> fs s' p = None"
  by (auto simp add: and_then_def run_unchecked_def unlink_def log_event_def
      split: proc_outcome.splits option.splits node.splits)

lemma disable_startup_Inr:
  "disable_startup r home s = Inr s' \<Longrightarrow> \<not> exists_path (fs s') (plist_path home)"
  by (auto simp add: disable_startup_def exists_path_def dest: remove_body_Inr split: if_splits)

lemma remove_launch_agent_Inr:
  "remove_launch_agent r home s = Inr s' \<Longrightarrow> \<not> exists_path (fs s') (plist_path home)"
  by (auto simp add: remove_launch_agent_def exists_path_def dest: remove_body_Inr split: if_splits)

text \<open>
  Claim C7. Removing the login agent when no record exists returns normally and changes
  nothing, and a second removal after a successful one is such a call: removal is
  idempotent, in both scripts.
\<close>

theorem remove_without_record_noop:
  "(\<not> exists_path (fs s) (plist_path home) \<longrightarrow> disable_startup r home s = Inr s)
   \<and> (raised (disable_startup r home s) = None \<longrightarrow>
        disable_startup r' home (final (disable_startup r home s))
          = Inr (final (disable_startup r home s)))
   \<and> (\<not> exists_path (fs t) (plist_path home) \<longrightarrow> remove_launch_agent r home t = Inr t)
   \<and> (raised (remove_launch_agent r home t) = None \<longrightarrow>
        remove_launch_agent r' home (final (remove_launch_agent r home t))
          = Inr (final (remove_launch_agent r home t)))"
proof -
  have a: "\<And>x. \<not> exists_path (fs x) (plist_path home) \<Longrightarrow> disable_startup r' home x = Inr x"
    by (simp add: disable_startup_def)
  have b: "\<And>x. \<not> exists_path (fs x) (plist_path home) \<Longrightarrow> remove_launch_agent r' home x = Inr x"
    by (simp add: remove_launch_agent_def)
  have c: "raised (disable_startup r home s) = None \<longrightarrow>
        disable_startup r' home (final (disable_startup r home s))
          = Inr (final (disable_startup r home s))"
  proof
    assume "raised (disable_startup r home s) = None"
    then obtain x where x: "disable_startup r home s = Inr x"
      by (auto simp add: raised_None)
    from a [OF disable_startup_Inr [OF x]] show
      "disable_startup r' home (final (disable_startup r home s))
          = Inr (final (disable_startup r home s))"
      by (simp add: x)
  qed
  have d: "raised (remove_launch_agent r home t) = None \<longrightarrow>
        remove_launch_agent r' home (final (remove_launch_agent r home t))
          = Inr (final (remove_launch_agent r home t))"
  proof
    assume "raised (remove_launch_agent r home t) = None"
    then obtain x where x: "remove_launch_agent r home t = Inr x"
      by (auto simp add: raised_None)
    from b [OF remove_launch_agent_Inr [OF x]] show
      "remove_launch_agent r' home (final (remove_launch_agent r home t))
          = Inr (final (remove_launch_agent r home t))"
      by (simp add: x)
  qed
  show ?thesis
    using c d by (simp add: disable_startup_def remove_launch_agent_def)
qed

theorem remove_without_record_noop_witness:
  "\<not> exists_path (fs (init_app [''Users'', ''u''] fresh_home)) (plist_path [''Users'', ''u''])
   \<and> disable_startup (Exited 0) [''Users'', ''u''] (init_app [''Users'', ''u''] fresh_home)
       = Inr (init_app [''Users'', ''u''] fresh_home)
   \<and> raised (remove_launch_agent (Exited 0) [''Users'', ''u'']
        (final (install_launch_agent (Exited 0) ''/Users/u/XDR_Brightness.py''
           [''Users'', ''u''] (init_ddc_app [''Users'', ''u''] home_with_agents)))) = None
   \<and> raised (remove_launch_agent (Exited 0) [''Users'', ''u'']
        (final (remove_launch_agent (Exited 0) [''Users'', ''u'']
          (final (install_launch_agent (Exited 0) ''/Users/u/XDR_Brightness.py''
             [''Users'', ''u''] (init_ddc_app [''Users'', ''u''] home_with_agents)))))) = None"
  using remove_without_record_noop
    [where s = "init_app [''Users'', ''u''] fresh_home" and home = "[''Users'', ''u'']"
       and r = "Exited 0" and r' = "Exited 0"
       and t = "final (install_launch_agent (Exited 0) ''/Users/u/XDR_Brightness.py''
           [''Users'', ''u''] (init_ddc_app [''Users'', ''u''] home_with_agents))"]
  by (simp add: eval_defs)

lemma parent_launch_agents [simp]:
  "parent (home @ [''Library'', ''LaunchAgents'']) = home @ [''Library'']"
  by (simp add: parent_def butlast_append)

lemma plist_neq_parent [simp]: "plist_path home \<noteq> home @ [''Library'', ''LaunchAgents'']"
  by (simp add: plist_path_def)

lemma enable_startup_ok:
  assumes d: "fs s (parent (plist_path home)) = Some Dir
              \<or> (fs s (parent (plist_path home)) = None
                 \<and> fs s (parent (parent (plist_path home))) = Some Dir)"
    and f: "fs s (plist_path home) \<noteq> Some Dir"
    and r: "r \<noteq> Spawn_failed"
  shows "\<exists>s'. enable_startup r e sc home s = Inr s'
          \<and> fs s' = (fs s)(parent (plist_path home) \<mapsto> Dir,
                            plist_path home \<mapsto> File (plist_content e sc))"
proof -
  obtain n where n: "r = Exited n" using r by (cases r) simp_all
  from d show ?thesis
  proof
    assume a: "fs s (parent (plist_path home)) = Some Dir"
    then have "(fs s)(parent (plist_path home) \<mapsto> Dir) = fs s" by (simp add: map_upd_triv)
    with a f show ?thesis
      by (simp add: n enable_startup_def and_then_def mkdir_exist_ok_def write_text_ok
          run_unchecked_def log_event_def)
  next
    assume a: "fs s (parent (plist_path home)) = None
                 \<and> fs s (parent (parent (plist_path home))) = Some Dir"
    then have b: "fs s (home @ [''Library'', ''LaunchAgents'']) = None"
      and c: "fs s (home @ [''Library'']) = Some Dir"
      by simp_all
    show ?thesis
      using b c f
      by (cases "fs s (plist_path home)")
         (auto simp add: n enable_startup_def and_then_def mkdir_exist_ok_def write_text_def
            run_unchecked_def log_event_def split: node.splits)
  qed
qed

lemma install_launch_agent_ok:
  assumes d: "fs s (parent (plist_path home)) = Some Dir"
    and f: "fs s (plist_path home) \<noteq> Some Dir"
    and r: "r \<noteq> Spawn_failed"
  shows "\<exists>s'. install_launch_agent r sc home s = Inr s'
          \<and> fs s' = (fs s)(plist_path home \<mapsto> File (plist_ddc sc))"
proof -
  obtain n where n: "r = Exited n" using r by (cases r) simp_all
  show ?thesis
    unfolding install_launch_agent_def and_then_def write_text_ok [OF d f]
    by (simp add: n run_unchecked_def log_event_def)
qed

text \<open>Where an install can succeed at all (the directory for the record exists or, for
  \<^verbatim>\<open>enable_startup\<close>, can be created, the record's path is not a directory and \<^verbatim>\<open>launchctl\<close>
  can be started), installing twice in succession raises nothing and the second call
  leaves the file system exactly as the first did, with the one record at its path.\<close>

lemma install_twice:
  "((fs s (parent (plist_path home)) = Some Dir
      \<or> (fs s (parent (plist_path home)) = None
          \<and> fs s (parent (parent (plist_path home))) = Some Dir))
     \<and> fs s (plist_path home) \<noteq> Some Dir \<and> ra \<noteq> Spawn_failed \<and> rb \<noteq> Spawn_failed \<longrightarrow>
       raised (enable_startup ra e sc home s) = None
     \<and> raised (enable_startup rb e sc home (final (enable_startup ra e sc home s))) = None
     \<and> fs (final (enable_startup rb e sc home (final (enable_startup ra e sc home s))))
         = fs (final (enable_startup ra e sc home s))
     \<and> fs (final (enable_startup rb e sc home (final (enable_startup ra e sc home s))))
          (plist_path home) = Some (File (plist_content e sc))
     \<and> is_startup_enabled home
          (final (enable_startup rb e sc home (final (enable_startup ra e sc home s)))))
   \<and> (fs t (parent (plist_path home)) = Some Dir
     \<and> fs t (plist_path home) \<noteq> Some Dir \<and> ra \<noteq> Spawn_failed \<and> rb \<noteq> Spawn_failed \<longrightarrow>
       raised (install_launch_agent ra sc home t) = None
     \<and> raised (install_launch_agent rb sc home (final (install_launch_agent ra sc home t))) = None
     \<and> fs (final (install_launch_agent rb sc home (final (install_launch_agent ra sc home t))))
         = fs (final (install_launch_agent ra sc home t))
     \<and> fs (final (install_launch_agent rb sc home (final (install_launch_agent ra sc home t))))
          (plist_path home) = Some (File (plist_ddc sc))
     \<and> launch_agent_installed home
          (final (install_launch_agent rb sc home (final (install_launch_agent ra sc home t)))))"
proof (intro conjI impI)
  assume h: "(fs s (parent (plist_path home)) = Some Dir
      \<or> (fs s (parent (plist_path home)) = None
          \<and> fs s (parent (parent (plist_path home))) = Some Dir))
     \<and> fs s (plist_path home) \<noteq> Some Dir \<and> ra \<noteq> Spawn_failed \<and> rb \<noteq> Spawn_failed"
  then obtain s1 where s1: "enable_startup ra e sc home s = Inr s1"
    and f1: "fs s1 = (fs s)(parent (plist_path home) \<mapsto> Dir,
                            plist_path home \<mapsto> File (plist_content e sc))"
    using enable_startup_ok [of s home ra e sc] by blast
  have p1: "fs s1 (parent (plist_path home)) = Some Dir" and q1: "fs s1 (plist_path home) \<noteq> Some Dir"
    by (simp_all add: f1)
  obtain s2 where s2: "enable_startup rb e sc home s1 = Inr s2"
    and f2: "fs s2 = (fs s1)(parent (plist_path home) \<mapsto> Dir,
                            plist_path home \<mapsto> File (plist_content e sc))"
    using enable_startup_ok [of s1 home rb e sc] p1 q1 h by blast
  have eq: "fs s2 = fs s1"
    unfolding f2 by (rule ext) (simp add: f1)
  show "raised (enable_startup ra e sc home s) = None"
    by (simp add: s1 raised_def)
  show "raised (enable_startup rb e sc home (final (enable_startup ra e sc home s))) = None"
    by (simp add: s1 s2 raised_def)
  show "fs (final (enable_startup rb e sc home (final (enable_startup ra e sc home s))))
         = fs (final (enable_startup ra e sc home s))"
    by (simp add: s1 s2 eq)
  show "fs (final (enable_startup rb e sc home (final (enable_startup ra e sc home s))))
          (plist_path home) = Some (File (plist_content e sc))"
    by (simp add: s1 s2 eq f1)
  show "is_startup_enabled home
          (final (enable_startup rb e sc home (final (enable_startup ra e sc home s))))"
    by (simp add: s1 s2 eq f1 is_startup_enabled_def exists_path_def)
next
  assume h: "fs t (parent (plist_path home)) = Some Dir
     \<and> fs t (plist_path home) \<noteq> Some Dir \<and> ra \<noteq> Spawn_failed \<and> rb \<noteq> Spawn_failed"
  then obtain s1 where s1: "install_launch_agent ra sc home t = Inr s1"
    and f1: "fs s1 = (fs t)(plist_path home \<mapsto> File (plist_ddc sc))"
    using install_launch_agent_ok [of t home ra sc] by blast
  have p1: "fs s1 (parent (plist_path home)) = Some Dir" and q1: "fs s1 (plist_path home) \<noteq> Some Dir"
    using h by (simp_all add: f1)
  obtain s2 where s2: "install_launch_agent rb sc home s1 = Inr s2"
    and f2: "fs s2 = (fs s1)(plist_path home \<mapsto> File (plist_ddc sc))"
    using install_launch_agent_ok [of s1 home rb sc] p1 q1 h by blast
  have eq: "fs s2 = fs s1"
    unfolding f2 by (rule ext) (simp add: f1)
  show "raised (install_launch_agent ra sc home t) = None"
    by (simp add: s1 raised_def)
  show "raised (install_launch_agent rb sc home (final (install_launch_agent ra sc home t))) = None"
    by (simp add: s1 s2 raised_def)
  show "fs (final (install_launch_agent rb sc home (final (install_launch_agent ra sc home t))))
         = fs (final (install_launch_agent ra sc home t))"
    by (simp add: s1 s2 eq)
  show "fs (final (install_launch_agent rb sc home (final (install_launch_agent ra sc home t))))
          (plist_path home) = Some (File (plist_ddc sc))"
    by (simp add: s1 s2 eq f1)
  show "launch_agent_installed home
          (final (install_launch_agent rb sc home (final (install_launch_agent ra sc home t))))"
    by (simp add: s1 s2 eq f1 launch_agent_installed_def exists_path_def)
qed


text \<open>The order of effects of a successful install: the record is written, then
  \<^verbatim>\<open>launchctl load\<close> is run.\<close>

lemma install_launch_agent_order:
  "install_launch_agent r sc home s = Inr s' \<Longrightarrow>
     trace s' = trace s @ [Write_text (plist_path home) (plist_ddc sc),
                           Run [''launchctl'', ''load'', str_path (plist_path home)]]"
  by (auto simp add: install_launch_agent_def and_then_Inr log_event_def
      dest!: write_text_Inr run_unchecked_Inr)

lemma enable_startup_order:
  "enable_startup r e sc home s = Inr s' \<Longrightarrow>
     trace s' = trace s @ [Write_text (plist_path home) (plist_content e sc),
                           Run [''launchctl'', ''load'', str_path (plist_path home)]]
   \<or> trace s' = trace s @ [Mkdir (parent (plist_path home)),
                           Write_text (plist_path home) (plist_content e sc),
                           Run [''launchctl'', ''load'', str_path (plist_path home)]]"
  by (auto simp add: enable_startup_def and_then_Inr log_event_def mkdir_exist_ok_def
      split: option.splits node.splits dest!: write_text_Inr run_unchecked_Inr)

text \<open>
  Claim C8. The claim: installing twice in succession raises nothing and leaves exactly
  one valid record, with the installed check answering true. \<^verbatim>\<open>_install_launch_agent\<close>
  creates no directory: in a home directory without \<^verbatim>\<open>Library/LaunchAgents\<close> the first call
  raises \<^verbatim>\<open>FileNotFoundError\<close>, the second call raises it again, no record exists afterwards
  and the installed check answers false.
\<close>

theorem install_launch_agent_twice_missing_directory:
  "raised (install_launch_agent (Exited 0) ''/Users/u/XDR_Brightness.py'' [''Users'', ''u'']
             (init_ddc_app [''Users'', ''u''] fresh_home))
     = Some (FileNotFoundError (plist_path [''Users'', ''u'']))
   \<and> raised (install_launch_agent (Exited 0) ''/Users/u/XDR_Brightness.py'' [''Users'', ''u'']
             (final (install_launch_agent (Exited 0) ''/Users/u/XDR_Brightness.py''
                [''Users'', ''u''] (init_ddc_app [''Users'', ''u''] fresh_home))))
     = Some (FileNotFoundError (plist_path [''Users'', ''u'']))
   \<and> fs (final (install_launch_agent (Exited 0) ''/Users/u/XDR_Brightness.py'' [''Users'', ''u'']
             (final (install_launch_agent (Exited 0) ''/Users/u/XDR_Brightness.py''
                [''Users'', ''u''] (init_ddc_app [''Users'', ''u''] fresh_home)))))
        (plist_path [''Users'', ''u'']) = None
   \<and> \<not> launch_agent_installed [''Users'', ''u'']
         (final (install_launch_agent (Exited 0) ''/Users/u/XDR_Brightness.py'' [''Users'', ''u'']
             (final (install_launch_agent (Exited 0) ''/Users/u/XDR_Brightness.py''
                [''Users'', ''u''] (init_ddc_app [''Users'', ''u''] fresh_home)))))"
  by (simp add: eval_defs)

text \<open>
  Claim C9. The claim: every install writes the record first, creating the parent
  directory when it is absent, and registers it afterwards. The order holds in both
  scripts (the two lemmas above), but \<^verbatim>\<open>_install_launch_agent\<close> creates no directory: in a
  home directory without \<^verbatim>\<open>Library/LaunchAgents\<close> its \<^verbatim>\<open>write_text\<close> raises
  \<^verbatim>\<open>FileNotFoundError\<close>, nothing is written and nothing is registered, while
  \<^verbatim>\<open>enable_startup\<close> of the other script creates the directory, writes and registers.
\<close>

theorem install_launch_agent_missing_directory:
  "raised (install_launch_agent (Exited 0) ''/Users/u/XDR_Brightness.py'' [''Users'', ''u'']
             (init_ddc_app [''Users'', ''u''] fresh_home))
     = Some (FileNotFoundError (plist_path [''Users'', ''u'']))
   \<and> trace (final (install_launch_agent (Exited 0) ''/Users/u/XDR_Brightness.py'' [''Users'', ''u'']
             (init_ddc_app [''Users'', ''u''] fresh_home))) = []
   \<and> \<not> launch_agent_installed [''Users'', ''u'']
         (final (install_launch_agent (Exited 0) ''/Users/u/XDR_Brightness.py'' [''Users'', ''u'']
             (init_ddc_app [''Users'', ''u''] fresh_home)))
   \<and> raised (enable_startup (Exited 0) ''/usr/bin/python3'' ''/Users/u/xdr-menubar-app.py''
             [''Users'', ''u''] (init_app [''Users'', ''u''] fresh_home)) = None
   \<and> trace (final (enable_startup (Exited 0) ''/usr/bin/python3'' ''/Users/u/xdr-menubar-app.py''
             [''Users'', ''u''] (init_app [''Users'', ''u''] fresh_home)))
       = [Mkdir [''Users'', ''u'', ''Library'', ''LaunchAgents''],
          Write_text (plist_path [''Users'', ''u''])
            (plist_content ''/usr/bin/python3'' ''/Users/u/xdr-menubar-app.py''),
          Run [''launchctl'', ''load'', str_path (plist_path [''Users'', ''u''])]]"
  by (simp add: eval_defs)

end
